theory Spec2Isabelle
  imports Complex_Main "HOL-Library.Sublist" "HOL-Library.Multiset"
begin

section \<open>Python values and the outside world\<close>

text \<open>
  The values the scripts put into their option tables and boundary-condition
  descriptions. A Python \<open>float\<close> is represented by the real number its expression
  denotes; rounding and the decimal rendering of numbers are outside the model, so the
  function that renders a non-string value (\<open>str()\<close> as an f-string applies it) is a
  parameter \<open>repr\<close> of every function that formats text.
\<close>

datatype pyval =
    PyInt int
  | PyFloat real
  | PyStr string
  | PyList "pyval list"
  | PyDict "(string \<times> pyval) list"

text \<open>\<open>f"{v}"\<close>: a string is inserted as it is, every other value through \<open>repr\<close>.\<close>

fun py_str :: "(pyval \<Rightarrow> string) \<Rightarrow> pyval \<Rightarrow> string" where
  "py_str repr (PyStr s) = s"
| "py_str repr v = repr v"

text \<open>\<open>hasattr(value, "items")\<close>: of the values above only a dictionary has \<open>items\<close>.\<close>

fun has_items :: "pyval \<Rightarrow> bool" where
  "has_items (PyDict d) = True"
| "has_items v = False"

datatype py_error = KeyError string | OSError string

text \<open>A member of one of the enumerations of \<open>cupy\<close>, by class and member name:
  \<open>cupy.bc_type.dirichlet\<close> is \<open>Cupy ''bc_type'' ''dirichlet''\<close>.\<close>

datatype cupy_enum = Cupy string string

text \<open>Geometry objects and the items handed to \<open>add_node_set\<close> and
  \<open>add_element_type\<close>.\<close>

datatype geom_obj = SurfaceObj int | VolumeObj int

datatype item =
    GroupRef "string option" string
  | FirstSurfaceOf geom_obj
  | FirstVolumeOf geom_obj

datatype bc_description = DescText string | DescDict "(string \<times> pyval) list"

text \<open>
  The calls that change the meshing session. Keyword arguments the caller may leave
  out are options: \<open>None\<close> when the call does not pass them.
\<close>

datatype cubit_call =
    NewSession
  | Cmd string
  | Group "string option" string
  | AddNodeSet item "string option" "cupy_enum option" "bc_description option"
  | AddElementType item "cupy_enum option" "bc_description option"
  | DisplayInCubit "cupy_enum list"
  | CreateDat string

datatype event = Call cubit_call | MakeDirs string | OpenWrite string

text \<open>
  The meshing engine behind a \<open>CubitPy\<close> instance is an external collaborator: its
  state is an opaque type \<open>'s\<close>, and what it does with a call or answers to a query is
  a parameter of the model. Calls on the session are taken to return normally.
\<close>

record 's engine =
  init :: 's
  init_head :: string
  step :: "cubit_call \<Rightarrow> 's \<Rightarrow> 's"
  parse_cubit_list :: "string \<Rightarrow> string \<Rightarrow> 's \<Rightarrow> int list"
  get_last_id :: "cupy_enum \<Rightarrow> 's \<Rightarrow> int"
  get_node_count :: "'s \<Rightarrow> int"
  get_element_count :: "'s \<Rightarrow> int"
  get_nodeset_node_count :: "int \<Rightarrow> 's \<Rightarrow> int"
  dat_text :: "'s \<Rightarrow> string \<Rightarrow> string"

text \<open>
  Everything a script can change: the session and its \<open>head\<close> attribute, the file
  system, standard output, and the log of the effects in the order they happened.
\<close>

record 's world =
  session :: 's
  head :: string
  files :: "string \<rightharpoonup> string"
  dirs :: "string set"
  stdout :: "string list"
  trace :: "event list"

definition call :: "'s engine \<Rightarrow> cubit_call \<Rightarrow> 's world \<Rightarrow> 's world" where
  "call E c w = w\<lparr>session := step E c (session w), trace := trace w @ [Call c]\<rparr>"

text \<open>\<open>cubit.cmd(command)\<close>\<close>

definition cmd :: "'s engine \<Rightarrow> string \<Rightarrow> 's world \<Rightarrow> 's world" where
  "cmd E command w = call E (Cmd command) w"

text \<open>\<open>CubitPy()\<close>: a fresh session.\<close>

definition CubitPy :: "'s engine \<Rightarrow> 's world \<Rightarrow> 's world" where
  "CubitPy E w =
     w\<lparr>session := init E, head := init_head E, trace := trace w @ [Call NewSession]\<rparr>"

text \<open>\<open>cubit.surface(id)\<close>, \<open>cubit.volume(id)\<close> and \<open>obj.id()\<close>\<close>

fun obj_id :: "geom_obj \<Rightarrow> int" where
  "obj_id (SurfaceObj i) = i"
| "obj_id (VolumeObj i) = i"

text \<open>\<open>cubit.group(add_value=..., name=...)\<close>: creates the group and returns it.\<close>

definition cubit_group ::
  "'s engine \<Rightarrow> string option \<Rightarrow> string \<Rightarrow> 's world \<Rightarrow> item \<times> 's world" where
  "cubit_group E name add_value w = (GroupRef name add_value, call E (Group name add_value) w)"

definition add_node_set ::
  "'s engine \<Rightarrow> item \<Rightarrow> string option \<Rightarrow> cupy_enum option \<Rightarrow> bc_description option
     \<Rightarrow> 's world \<Rightarrow> 's world" where
  "add_node_set E it name bc_type bc_desc w = call E (AddNodeSet it name bc_type bc_desc) w"

definition add_element_type ::
  "'s engine \<Rightarrow> item \<Rightarrow> cupy_enum option \<Rightarrow> bc_description option
     \<Rightarrow> 's world \<Rightarrow> 's world" where
  "add_element_type E it el_type bc_desc w = call E (AddElementType it el_type bc_desc) w"

definition display_in_cubit :: "'s engine \<Rightarrow> cupy_enum list \<Rightarrow> 's world \<Rightarrow> 's world" where
  "display_in_cubit E labels w = call E (DisplayInCubit labels) w"

text \<open>\<open>cubit.create_dat(filename)\<close>: the session writes the solver input file, whose
  text the engine derives from its state and the \<open>head\<close> attribute.\<close>

definition create_dat :: "'s engine \<Rightarrow> string \<Rightarrow> 's world \<Rightarrow> 's world" where
  "create_dat E filename w =
     (call E (CreateDat filename) w)
       \<lparr>files := (files w)(filename \<mapsto> dat_text E (session w) (head w))\<rparr>"

text \<open>\<open>os.makedirs(path, exist_ok=True)\<close>\<close>

definition makedirs :: "string \<Rightarrow> 's world \<Rightarrow> 's world" where
  "makedirs path w = w\<lparr>dirs := insert path (dirs w), trace := trace w @ [MakeDirs path]\<rparr>"

text \<open>\<open>print(line)\<close>\<close>

definition py_print :: "string \<Rightarrow> 's world \<Rightarrow> 's world" where
  "py_print line w = w\<lparr>stdout := stdout w @ [line]\<rparr>"

section \<open>femref/cubit\_utils.py\<close>

datatype new_ids = Single int | Many "int list"

text \<open>
  \<open>list(after_cmd - before_cmd)\<close>: the elements of the set difference, each once,
  in the order in which Python iterates over the set. Python fixes nothing about that
  order, so it is a parameter: \<open>pos\<close> gives the position at which the iteration
  reaches an element, and the list is the set's elements by position. Every
  enumeration of the set is the list for some \<open>pos\<close>.
\<close>

definition list_of_diff :: "(int \<Rightarrow> nat) \<Rightarrow> int set \<Rightarrow> int set \<Rightarrow> int list" where
  "list_of_diff pos after_cmd before_cmd =
     sort_key pos (sorted_list_of_set (after_cmd - before_cmd))"

definition cubit_cmd ::
  "'s engine \<Rightarrow> (int \<Rightarrow> nat) \<Rightarrow> string \<Rightarrow> 's world \<Rightarrow> string \<Rightarrow> bool
     \<Rightarrow> new_ids \<times> 's world" where
  "cubit_cmd E pos command w track_id flatten_if_possible =
     (let before_cmd = set (parse_cubit_list E track_id ''all'' (session w));
          w = cmd E command w;
          after_cmd = set (parse_cubit_list E track_id ''all'' (session w));
          new_ids = list_of_diff pos after_cmd before_cmd
      in if length new_ids = 1 \<and> flatten_if_possible
         then (Single (new_ids ! 0), w)
         else (Many new_ids, w))"

text \<open>The loop over the nodesets of \<open>print_mesh_statistics\<close>.\<close>

fun print_nodesets :: "'s engine \<Rightarrow> (pyval \<Rightarrow> string) \<Rightarrow> int list \<Rightarrow> 's world \<Rightarrow> 's world" where
  "print_nodesets E repr [] w = w"
| "print_nodesets E repr (nsid # rest) w =
     print_nodesets E repr rest
       (py_print (''Nodes in Nodeset '' @ py_str repr (PyInt nsid) @ '': ''
                    @ py_str repr (PyInt (get_nodeset_node_count E nsid (session w)))) w)"

definition print_mesh_statistics :: "'s engine \<Rightarrow> (pyval \<Rightarrow> string) \<Rightarrow> 's world \<Rightarrow> 's world" where
  "print_mesh_statistics E repr w =
     (let num_nodes = get_node_count E (session w);
          num_elements = get_element_count E (session w);
          w = py_print (''Total nodes:        '' @ py_str repr (PyInt num_nodes)) w;
          w = py_print (''Total elements:     '' @ py_str repr (PyInt num_elements)) w;
          nodeset_ids = parse_cubit_list E ''nodeset'' ''all'' (session w)
      in print_nodesets E repr nodeset_ids w)"

section \<open>femref/utils.py\<close>

text \<open>\<open>s.endswith(suf)\<close>\<close>

definition endswith :: "string \<Rightarrow> string \<Rightarrow> bool" where
  "endswith s suf = (length suf \<le> length s \<and> drop (length s - length suf) s = suf)"

text \<open>The first statement of \<open>write_readme\<close>: the path is rebound so that it
  ends in \<open>README.md\<close>.\<close>

definition readme_path :: "string \<Rightarrow> string" where
  "readme_path filepath =
     (if \<not> endswith filepath ''README.md'' then filepath @ ''/README.md'' else filepath)"

text \<open>The inner loop, \<open>for param, val in value.items()\<close>; \<open>f\<close> is the text
  written to the file so far.\<close>

fun write_rows :: "(pyval \<Rightarrow> string) \<Rightarrow> (string \<times> pyval) list \<Rightarrow> string \<Rightarrow> string" where
  "write_rows repr [] f = f"
| "write_rows repr ((param, val) # rest) f =
     write_rows repr rest (f @ ''| '' @ param @ '' | '' @ py_str repr val @ '' |\<newline>'')"

text \<open>\<open>value.items()\<close>\<close>

fun items_of :: "pyval \<Rightarrow> (string \<times> pyval) list" where
  "items_of (PyDict d) = d"
| "items_of v = []"

text \<open>The outer loop, \<open>for key, value in options.items()\<close>. An option table is
  the list of its pairs in the dictionary's iteration order.\<close>

fun write_parameters :: "(pyval \<Rightarrow> string) \<Rightarrow> (string \<times> pyval) list \<Rightarrow> string \<Rightarrow> string" where
  "write_parameters repr [] f = f"
| "write_parameters repr ((key, val) # rest) f =
     write_parameters repr rest
       (if has_items val
        then (let f = f @ ''## '' @ key @ ''\<newline>'';
                  f = f @ ''| Parameter | Value |\<newline>|:--|:--|\<newline>'';
                  f = write_rows repr (items_of val) f
              in f @ ''\<newline>\<newline>'')
        else f)"

text \<open>
  The body of the \<open>with\<close> block: the result, and the text the file holds when the
  block is left. \<open>options['title']\<close> and \<open>options['description']\<close> raise
  \<open>KeyError\<close> when the key is missing, before the \<open>write\<close> they stand in. The
  time stamp \<open>datetime.now().strftime(...)\<close> is the parameter \<open>stamp\<close>.
\<close>

definition readme_writes ::
  "(pyval \<Rightarrow> string) \<Rightarrow> string \<Rightarrow> (string \<times> pyval) list \<Rightarrow> (py_error + unit) \<times> string" where
  "readme_writes repr stamp options =
     (let f = [] in
      case map_of options ''title'' of
        None \<Rightarrow> (Inl (KeyError ''title''), f)
      | Some title \<Rightarrow>
          (let f = f @ ''# '' @ py_str repr title @ ''\<newline>\<newline>'' in
           case map_of options ''description'' of
             None \<Rightarrow> (Inl (KeyError ''description''), f)
           | Some description \<Rightarrow>
               (let f = f @ py_str repr description @ ''\<newline>\<newline>\<newline>'';
                    f = write_parameters repr options f;
                    f = f @ ''Last updated: '' @ stamp @ ''\<newline>''
                in (Inr (), f))))"

text \<open>
  \<open>open(filepath, "w")\<close> creates or truncates the file, or raises \<open>OSError\<close>;
  whether a path can be opened is the parameter \<open>can_open\<close>. Leaving the
  \<open>with\<close> block closes the file, also when the body raised.
\<close>

definition write_readme ::
  "(string \<Rightarrow> bool) \<Rightarrow> (pyval \<Rightarrow> string) \<Rightarrow> string \<Rightarrow> string \<Rightarrow> (string \<times> pyval) list
     \<Rightarrow> 's world \<Rightarrow> (py_error + unit) \<times> 's world" where
  "write_readme can_open repr stamp filepath options w =
     (let filepath = readme_path filepath in
      if \<not> can_open filepath then (Inl (OSError filepath), w)
      else (let (r, f) = readme_writes repr stamp options
            in (r, w\<lparr>files := (files w)(filepath \<mapsto> f),
                     trace := trace w @ [OpenWrite filepath]\<rparr>)))"

section \<open>examples/bending\_beam: generate\_hyperelastic\_bending\_beam.py\<close>

text \<open>The controls of the script. Each script has module constants of the same
  names; here they carry the script's name as a prefix.\<close>

definition beam_LENGTH :: int where "beam_LENGTH = 20"
definition beam_HEIGHT :: int where "beam_HEIGHT = 2"
definition beam_MESH_SIZE :: real where "beam_MESH_SIZE = 0.1"
definition beam_EPS :: real where "beam_EPS = 1 / 100000"
definition beam_KINEMATICS :: string where "beam_KINEMATICS = ''nonlinear''"
definition beam_STRESS_STRAIN_MODEL :: string where "beam_STRESS_STRAIN_MODEL = ''plane_strain''"
definition beam_MUE :: real where "beam_MUE = 4170000000"
definition beam_LAMBDA :: real where "beam_LAMBDA = 2780000000"
definition beam_YOUNG :: real where
  "beam_YOUNG = beam_MUE * (3 * beam_LAMBDA + 2 * beam_MUE) / (beam_LAMBDA + beam_MUE)"
definition beam_NUE :: real where
  "beam_NUE = beam_LAMBDA / (2 * (beam_LAMBDA + beam_MUE))"
definition beam_SHEAR_FORCE :: real where "beam_SHEAR_FORCE = 10000000"
definition beam_LOAD_STEPS :: int where "beam_LOAD_STEPS = 50"
definition beam_SHOW_STEP :: "bool list" where "beam_SHOW_STEP = [False, False, False]"
definition beam_SHOW_FINAL :: bool where "beam_SHOW_FINAL = False"

definition beam_OPTIONS :: "(string \<times> pyval) list" where
  "beam_OPTIONS =
     [(''title'', PyStr ''Hyperelastic bending beam with nonlinear kinematics under shear force''),
      (''description'', PyStr ''We simulate the large deformation of a hyperelastic bending beam by prescribing a Neumann BC which increases with the load step.''),
      (''geometry'', PyDict
         [(''length'', PyInt beam_LENGTH),
          (''height'', PyInt beam_HEIGHT)]),
      (''mesh'', PyDict
         [(''mesh_size'', PyFloat beam_MESH_SIZE)]),
      (''model'', PyDict
         [(''kinematics'', PyStr beam_KINEMATICS),
          (''stress_closure'', PyStr beam_STRESS_STRAIN_MODEL)]),
      (''material'', PyDict
         [(''constitutive_law'', PyStr ''ELAST_CoupLogNeoHooke''),
          (''shear_modulus'', PyFloat beam_MUE),
          (''lame_parameter'', PyFloat beam_LAMBDA)]),
      (''boundary_conditions'', PyDict
         [(''max_shear_force'', PyFloat beam_SHEAR_FORCE),
          (''load_steps'', PyInt beam_LOAD_STEPS)])]"

text \<open>The head string of the solver input file.\<close>

definition beam_head :: "(pyval \<Rightarrow> string) \<Rightarrow> string" where
  "beam_head repr =
     ''------------------------------------------------------------------PROBLEM SIZE\<newline>'' @
     ''    DIM                             2\<newline>'' @
     ''    ------------------------------------------------------------------PROBLEM TYPE\<newline>'' @
     ''    PROBLEMTYPE                     Structure\<newline>'' @
     ''    ----------------------------------------------------------------------------IO\<newline>'' @
     ''    OUTPUT_BIN                      no\<newline>'' @
     ''    STRUCT_DISP                     yes\<newline>'' @
     ''    FILESTEPS                       1000\<newline>'' @
     ''    VERBOSITY                       Standard\<newline>'' @
     ''    STRUCT_STRAIN                   gl\<newline>'' @
     ''    STRUCT_STRESS                   cauchy\<newline>'' @
     ''    OUTPUT_SPRING                   Yes\<newline>'' @
     ''    WRITE_INITIAL_STATE             yes\<newline>'' @
     ''    ---------------------------------------------------------IO/RUNTIME VTK OUTPUT\<newline>'' @
     ''    OUTPUT_DATA_FORMAT              binary\<newline>'' @
     ''    INTERVAL_STEPS                  '' @ py_str repr (PyFloat (real_of_int beam_LOAD_STEPS / 10)) @ ''\<newline>'' @
     ''    EVERY_ITERATION                 no\<newline>'' @
     ''    -----------------------------------------------IO/RUNTIME VTK OUTPUT/STRUCTURE\<newline>'' @
     ''    OUTPUT_STRUCTURE                yes\<newline>'' @
     ''    DISPLACEMENT                    yes\<newline>'' @
     ''    ELEMENT_OWNER                   yes\<newline>'' @
     ''    STRESS_STRAIN                   yes\<newline>'' @
     ''    ------------------------------------------------------------STRUCTURAL DYNAMIC\<newline>'' @
     ''    INT_STRATEGY                    Standard\<newline>'' @
     ''    DYNAMICTYPE                     Statics\<newline>'' @
     ''    RESULTSEVERY                    1\<newline>'' @
     ''    RESTARTEVERY                    1\<newline>'' @
     ''    TIMESTEP                        '' @ py_str repr (PyFloat (1 / real_of_int beam_LOAD_STEPS)) @ ''\<newline>'' @
     ''    NUMSTEP                         '' @ py_str repr (PyInt beam_LOAD_STEPS) @ ''\<newline>'' @
     ''    MAXTIME                         1\<newline>'' @
     ''    PREDICT                         TangDis\<newline>'' @
     ''    NORM_RESF                       Rel\<newline>'' @
     ''    TOLDISP                         1e-7\<newline>'' @
     ''    TOLRES                          1e-7\<newline>'' @
     ''    LINEAR_SOLVER                   1\<newline>'' @
     ''    NLNSOL                          fullnewton\<newline>'' @
     ''    MAXITER                         50\<newline>'' @
     ''    ----------------------------------------------------------------------SOLVER 1\<newline>'' @
     ''    NAME                            Structure_Solver\<newline>'' @
     ''    SOLVER                          Superlu\<newline>'' @
     ''    -----------------------------------------------------------STRUCT NOX/Printing\<newline>'' @
     ''    Outer Iteration                 = Yes\<newline>'' @
     ''    Inner Iteration                 = No\<newline>'' @
     ''    Outer Iteration StatusTest      = No\<newline>'' @
     ''    ---------------------------------------------------------------------MATERIALS\<newline>'' @
     ''    MAT 1  MAT_ElastHyper NUMMAT 1 MATIDS 10 DENS 0.1\<newline>'' @
     ''    MAT 10 ELAST_CoupLogNeoHooke MODE Lame C1 '' @ py_str repr (PyFloat beam_MUE) @ '' C2 '' @ py_str repr (PyFloat beam_LAMBDA) @ ''\<newline>'' @
     ''    ------------------------------------------------------------------------FUNCT1\<newline>'' @
     ''    SYMBOLIC_FUNCTION_OF_SPACE_TIME t''"

definition generate_bending_beam ::
  "'s engine \<Rightarrow> (pyval \<Rightarrow> string) \<Rightarrow> string \<Rightarrow> 's world \<Rightarrow> 's world" where
  "generate_bending_beam E repr filename w =
     (let w = CubitPy E w;
          w = cmd E (''create surface rectangle width '' @ py_str repr (PyInt beam_LENGTH)
                       @ '' height '' @ py_str repr (PyInt beam_HEIGHT) @ '' zplane'') w;
          beam = SurfaceObj (get_last_id E (Cupy ''geometry'' ''surface'') (session w));
          w = (if beam_SHOW_STEP ! 0 then display_in_cubit E [] w else w);
          w = cmd E (''surface '' @ py_str repr (PyInt (obj_id beam))
                       @ '' size '' @ py_str repr (PyFloat beam_MESH_SIZE)) w;
          w = cmd E (''mesh surface '' @ py_str repr (PyInt (obj_id beam))) w;
          w = (if beam_SHOW_STEP ! 1 then display_in_cubit E [] w else w);
          (g, w) = cubit_group E None
                     (''add curve with y_coord < ''
                        @ py_str repr (PyFloat (- real_of_int beam_HEIGHT / 2 + beam_EPS))) w;
          w = add_node_set E g (Some ''bottom'') (Some (Cupy ''bc_type'' ''dirichlet''))
                (Some (DescText ''NUMDOF 2 ONOFF 0 0 VAL 0 0 FUNCT 0 0'')) w;
          (g, w) = cubit_group E None
                     (''add curve with x_coord < ''
                        @ py_str repr (PyFloat (- real_of_int beam_LENGTH / 2 + beam_EPS))) w;
          w = add_node_set E g (Some ''left'') (Some (Cupy ''bc_type'' ''dirichlet''))
                (Some (DescText ''NUMDOF 2 ONOFF 1 1 VAL 0 0 FUNCT 0 0'')) w;
          (g, w) = cubit_group E None
                     (''add curve with y_coord > ''
                        @ py_str repr (PyFloat (real_of_int beam_HEIGHT / 2 - beam_EPS))) w;
          w = add_node_set E g (Some ''top'') (Some (Cupy ''bc_type'' ''dirichlet''))
                (Some (DescText ''NUMDOF 2 ONOFF 0 0 VAL 0 0 FUNCT 0 0'')) w;
          (g, w) = cubit_group E None
                     (''add curve with x_coord > ''
                        @ py_str repr (PyFloat (real_of_int beam_LENGTH / 2 - beam_EPS))) w;
          w = add_node_set E g (Some ''right'') (Some (Cupy ''bc_type'' ''neumann''))
                (Some (DescText (''NUMDOF 2 ONOFF 0 1 VAL 0 ''
                                   @ py_str repr (PyFloat (- beam_SHEAR_FORCE)) @ '' FUNCT 0 1''))) w;
          w = add_element_type E (FirstSurfaceOf beam) (Some (Cupy ''element_type'' ''quad4''))
                (Some (DescText (''KINEM '' @ beam_KINEMATICS @ '' EAS none THICK 1 STRESS_STRAIN ''
                                   @ beam_STRESS_STRAIN_MODEL @ '' GP 2 2''))) w;
          w = print_mesh_statistics E repr w;
          w = (if beam_SHOW_STEP ! 2 \<or> beam_SHOW_FINAL
               then display_in_cubit E [Cupy ''geometry'' ''curve''] w else w);
          w = w\<lparr>head := beam_head repr\<rparr>
      in create_dat E filename w)"

text \<open>The script block under \<open>if __name__ == "__main__"\<close>.\<close>

definition beam_main ::
  "'s engine \<Rightarrow> (string \<Rightarrow> bool) \<Rightarrow> (pyval \<Rightarrow> string) \<Rightarrow> string \<Rightarrow> 's world
     \<Rightarrow> (py_error + unit) \<times> 's world" where
  "beam_main E can_open repr stamp w =
     (let w = generate_bending_beam E repr ''./hyperelastic_bending_beam.dat'' w
      in write_readme can_open repr stamp ''./README.md'' beam_OPTIONS w)"

section \<open>examples/block\_torsion\_3D: generate\_block\_torsion.py\<close>

definition block_LENGTH :: int where "block_LENGTH = 4"
definition block_HEIGHT :: int where "block_HEIGHT = 1"
definition block_DEPTH :: int where "block_DEPTH = 1"
definition block_MESH_SIZE :: real where "block_MESH_SIZE = 0.1"
definition block_EPS :: real where "block_EPS = 1 / 100000"
definition block_KINEMATICS :: string where "block_KINEMATICS = ''nonlinear''"
definition block_YOUNG :: real where "block_YOUNG = 1.33"
definition block_POISSON :: real where "block_POISSON = 0.33"
definition block_END_ROTATION :: int where "block_END_ROTATION = 150"
definition block_LOAD_STEPS :: int where "block_LOAD_STEPS = 50"
definition block_SHOW_STEP :: "bool list" where "block_SHOW_STEP = [False, False, False, False]"
definition block_SHOW_FINAL :: bool where "block_SHOW_FINAL = True"

definition block_OPTIONS :: "(string \<times> pyval) list" where
  "block_OPTIONS =
     [(''title'', PyStr ''Torsion of a block with non-linear kinematic behavior''),
      (''description'', PyStr ''We simulate the torsion of a block by prescribing a Dirichlet BC which increases with the load step.''),
      (''geometry'', PyDict
         [(''length'', PyInt block_LENGTH),
          (''height'', PyInt block_HEIGHT),
          (''depth'', PyInt block_DEPTH)]),
      (''mesh'', PyDict
         [(''mesh_size'', PyFloat block_MESH_SIZE)]),
      (''model'', PyDict [(''kinematics'', PyStr block_KINEMATICS)]),
      (''material'', PyDict
         [(''constitutive_law'', PyStr ''ELAST_CoupLogNeoHooke''),
          (''youngs_modulus'', PyFloat block_YOUNG),
          (''poisson_ratio'', PyFloat block_POISSON)]),
      (''boundary_conditions'', PyDict
         [(''end_rotation'', PyInt block_END_ROTATION),
          (''load_steps'', PyInt block_LOAD_STEPS)])]"

definition block_head :: "(pyval \<Rightarrow> string) \<Rightarrow> string" where
  "block_head repr =
     ''------------------------------------------------------------------PROBLEM SIZE\<newline>'' @
     ''    DIM                             3\<newline>'' @
     ''    ------------------------------------------------------------------PROBLEM TYPE\<newline>'' @
     ''    PROBLEMTYPE                     Structure\<newline>'' @
     ''    ----------------------------------------------------------------------------IO\<newline>'' @
     ''    OUTPUT_BIN                      no\<newline>'' @
     ''    STRUCT_DISP                     yes\<newline>'' @
     ''    FILESTEPS                       1000\<newline>'' @
     ''    VERBOSITY                       Standard\<newline>'' @
     ''    STRUCT_STRAIN                   gl\<newline>'' @
     ''    STRUCT_STRESS                   cauchy\<newline>'' @
     ''    OUTPUT_SPRING                   Yes\<newline>'' @
     ''    WRITE_INITIAL_STATE             yes\<newline>'' @
     ''    ---------------------------------------------------------IO/RUNTIME VTK OUTPUT\<newline>'' @
     ''    OUTPUT_DATA_FORMAT              binary\<newline>'' @
     ''    INTERVAL_STEPS                  5\<newline>'' @
     ''    EVERY_ITERATION                 no\<newline>'' @
     ''    -----------------------------------------------IO/RUNTIME VTK OUTPUT/STRUCTURE\<newline>'' @
     ''    OUTPUT_STRUCTURE                yes\<newline>'' @
     ''    DISPLACEMENT                    yes\<newline>'' @
     ''    ELEMENT_OWNER                   yes\<newline>'' @
     ''    STRESS_STRAIN                   yes\<newline>'' @
     ''    ------------------------------------------------------------STRUCTURAL DYNAMIC\<newline>'' @
     ''    INT_STRATEGY                    Standard\<newline>'' @
     ''    DYNAMICTYPE                     Statics\<newline>'' @
     ''    RESULTSEVERY                    5\<newline>'' @
     ''    RESTARTEVERY                    '' @ py_str repr (PyInt block_LOAD_STEPS) @ ''\<newline>'' @
     ''    TIMESTEP                        '' @ py_str repr (PyFloat (1 / real_of_int block_LOAD_STEPS)) @ ''\<newline>'' @
     ''    NUMSTEP                         '' @ py_str repr (PyInt block_LOAD_STEPS) @ ''\<newline>'' @
     ''    MAXTIME                         1\<newline>'' @
     ''    PREDICT                         ConstDis\<newline>'' @
     ''    NORM_RESF                       Rel\<newline>'' @
     ''    TOLDISP                         1e-7\<newline>'' @
     ''    TOLRES                          1e-7\<newline>'' @
     ''    NORMCOMBI_DISPPRES              And\<newline>'' @
     ''    LINEAR_SOLVER                   1\<newline>'' @
     ''    NLNSOL                          fullnewton\<newline>'' @
     ''    MAXITER                         20\<newline>'' @
     ''    ----------------------------------------------------------------------SOLVER 1\<newline>'' @
     ''    NAME                            Structure_Solver\<newline>'' @
     ''    SOLVER                          Superlu\<newline>'' @
     ''    -----------------------------------------------------------STRUCT NOX/Printing\<newline>'' @
     ''    Outer Iteration                 = Yes\<newline>'' @
     ''    Inner Iteration                 = No\<newline>'' @
     ''    Outer Iteration StatusTest      = Yes\<newline>'' @
     ''    ---------------------------------------------------------------------MATERIALS\<newline>'' @
     ''    MAT 1  MAT_ElastHyper NUMMAT 1 MATIDS 10 DENS 1\<newline>'' @
     ''    MAT 10 ELAST_CoupLogNeoHooke MODE YN C1 '' @ py_str repr (PyFloat block_YOUNG) @ '' C2 '' @ py_str repr (PyFloat block_POISSON) @ ''\<newline>'' @
     ''    ------------------------------------------------------------------------FUNCT1\<newline>'' @
     ''    SYMBOLIC_FUNCTION_OF_SPACE_TIME y*cos('' @ py_str repr (PyFloat (real_of_int (2 * block_END_ROTATION) / 360)) @ ''*pi*t)-z*sin('' @ py_str repr (PyFloat (real_of_int (2 * block_END_ROTATION) / 360)) @ ''*pi*t)-y\<newline>'' @
     ''    ------------------------------------------------------------------------FUNCT2\<newline>'' @
     ''    SYMBOLIC_FUNCTION_OF_SPACE_TIME y*sin('' @ py_str repr (PyFloat (real_of_int (2 * block_END_ROTATION) / 360)) @ ''*pi*t)+z*cos('' @ py_str repr (PyFloat (real_of_int (2 * block_END_ROTATION) / 360)) @ ''*pi*t)-z''"


definition generate_block ::
  "'s engine \<Rightarrow> (pyval \<Rightarrow> string) \<Rightarrow> string \<Rightarrow> 's world \<Rightarrow> 's world" where
  "generate_block E repr filename w =
     (let w = CubitPy E w;
          w = cmd E (''brick x '' @ py_str repr (PyInt block_LENGTH)
                       @ '' y '' @ py_str repr (PyInt block_HEIGHT)
                       @ '' z '' @ py_str repr (PyInt block_DEPTH)) w;
          block = VolumeObj (get_last_id E (Cupy ''geometry'' ''volume'') (session w));
          w = (if block_SHOW_STEP ! 0 then display_in_cubit E [] w else w);
          w = cmd E (''move volume '' @ py_str repr (PyInt (obj_id block))
                       @ '' x '' @ py_str repr (PyFloat (real_of_int block_LENGTH / 2))
                       @ '' y 0 z 0 include_merged'') w;
          w = (if block_SHOW_STEP ! 1 then display_in_cubit E [] w else w);
          w = cmd E (''volume '' @ py_str repr (PyInt (obj_id block))
                       @ '' size '' @ py_str repr (PyFloat block_MESH_SIZE)) w;
          w = cmd E (''mesh volume '' @ py_str repr (PyInt (obj_id block))) w;
          w = (if block_SHOW_STEP ! 2 then display_in_cubit E [] w else w);
          (g, w) = cubit_group E None
                     (''add surface with x_coord < '' @ py_str repr (PyFloat block_EPS)) w;
          w = add_node_set E g (Some ''rigid_left'') (Some (Cupy ''bc_type'' ''dirichlet''))
                (Some (DescText ''NUMDOF 3 ONOFF 1 1 1 VAL 0 0 0 FUNCT 0 0 0'')) w;
          (g, w) = cubit_group E None
                     (''add surface with x_coord > ''
                        @ py_str repr (PyFloat (real_of_int block_LENGTH - block_EPS))) w;
          w = add_node_set E g (Some ''torsion_right'') (Some (Cupy ''bc_type'' ''dirichlet''))
                (Some (DescText ''NUMDOF 3 ONOFF 1 1 1 VAL 0 1 1 FUNCT 0 1 2'')) w;
          w = (if block_SHOW_STEP ! 3 \<or> block_SHOW_FINAL
               then display_in_cubit E [Cupy ''geometry'' ''surface''] w else w);
          w = add_element_type E (FirstVolumeOf block) (Some (Cupy ''element_type'' ''hex8''))
                (Some (DescText (''KINEM '' @ block_KINEMATICS))) w;
          w = print_mesh_statistics E repr w;
          w = w\<lparr>head := block_head repr\<rparr>
      in create_dat E filename w)"

definition block_main ::
  "'s engine \<Rightarrow> (string \<Rightarrow> bool) \<Rightarrow> (pyval \<Rightarrow> string) \<Rightarrow> string \<Rightarrow> 's world
     \<Rightarrow> (py_error + unit) \<times> 's world" where
  "block_main E can_open repr stamp w =
     (let path = ''./'' @ block_KINEMATICS;
          w = makedirs path w;
          w = generate_block E repr (path @ ''/block_torsion.dat'') w
      in write_readme can_open repr stamp (path @ ''/README.md'') block_OPTIONS w)"

section \<open>examples/spherical\_contact: generate\_semicircle.py\<close>

definition semi_RADIUS :: int where "semi_RADIUS = 1"
definition semi_H_WIDTH :: real where "semi_H_WIDTH = 0.3"
definition semi_H_HEIGHT :: real where "semi_H_HEIGHT = 0.4"
definition semi_H_ARCLOC :: real where "semi_H_ARCLOC = sqrt 0.5"
definition semi_MESH_SIZE_CONTACT :: real where "semi_MESH_SIZE_CONTACT = 0.02"
definition semi_MESH_SIZE_COARSE :: real where "semi_MESH_SIZE_COARSE = 0.1"
definition semi_MESH_SIZE_INTERMEDIATE :: real where
  "semi_MESH_SIZE_INTERMEDIATE = 0.5 * (semi_MESH_SIZE_COARSE + semi_MESH_SIZE_CONTACT) / 2"
definition semi_EPS :: real where "semi_EPS = 1 / 100000"
definition semi_KINEMATICS :: string where "semi_KINEMATICS = ''nonlinear''"
definition semi_YOUNG :: real where "semi_YOUNG = 1.33"
definition semi_POISSON :: real where "semi_POISSON = 0.33"
definition semi_PRESSURE :: int where "semi_PRESSURE = 5"
definition semi_LOAD_STEPS :: int where "semi_LOAD_STEPS = 50"
definition semi_SHOW_STEP :: "bool list" where
  "semi_SHOW_STEP = [False, False, False, False, False]"
definition semi_SHOW_FINAL :: bool where "semi_SHOW_FINAL = True"

definition semi_OPTIONS :: "(string \<times> pyval) list" where
  "semi_OPTIONS =
     [(''title'', PyStr ''Hertzian-type contact with large deformation''),
      (''description'', PyStr ''We simulate a two-dimensional hertzian-type contact problem by subjecting a 2D semicircle to a pressure on its top surface.''),
      (''geometry'', PyDict
         [(''radius'', PyInt semi_RADIUS),
          (''h_width'', PyFloat semi_H_WIDTH),
          (''h_height'', PyFloat semi_H_HEIGHT),
          (''h_arcloc'', PyFloat semi_H_ARCLOC)]),
      (''mesh'', PyDict
         [(''mesh_size_coarse'', PyFloat semi_MESH_SIZE_COARSE),
          (''mesh_size_intermediate'', PyFloat semi_MESH_SIZE_INTERMEDIATE),
          (''mesh_size_contact'', PyFloat semi_MESH_SIZE_CONTACT)]),
      (''model'', PyDict [(''kinematics'', PyStr semi_KINEMATICS)]),
      (''material'', PyDict
         [(''constitutive_law'', PyStr ''ELAST_CoupLogNeoHooke''),
          (''youngs_modulus'', PyFloat semi_YOUNG),
          (''poisson_ratio'', PyFloat semi_POISSON)]),
      (''boundary_conditions'', PyDict
         [(''end_pressure'', PyInt semi_PRESSURE),
          (''load_steps'', PyInt semi_LOAD_STEPS)])]"

text \<open>The function is split where the script shows its steps: vertices, curves,
  surfaces and the obstacle, mesh sizes and meshing, node sets and element blocks.
  \<open>generate_semicircle\<close> runs them in the order of the source.\<close>

definition semi_vertices :: "'s engine \<Rightarrow> (pyval \<Rightarrow> string) \<Rightarrow> 's world \<Rightarrow> 's world" where
  "semi_vertices E repr w =
     (let w = cmd E ''create vertex 0 0 0'' w;
          w = cmd E (''create vertex '' @ py_str repr (PyFloat semi_H_WIDTH) @ '' 0 0'') w;
          w = cmd E (''create vertex '' @ py_str repr (PyInt semi_RADIUS) @ '' 0 0'') w;
          w = cmd E (''create vertex '' @ py_str repr (PyFloat semi_H_ARCLOC) @ '' ''
                       @ py_str repr (PyFloat (- semi_H_ARCLOC)) @ '' 0'') w;
          w = cmd E (''create vertex '' @ py_str repr (PyFloat (- semi_H_ARCLOC)) @ '' ''
                       @ py_str repr (PyFloat (- semi_H_ARCLOC)) @ '' 0'') w;
          w = cmd E (''create vertex '' @ py_str repr (PyInt (- semi_RADIUS)) @ '' 0 0'') w;
          w = cmd E (''create vertex '' @ py_str repr (PyFloat (- semi_H_WIDTH)) @ '' 0 0'') w;
          w = cmd E (''create vertex '' @ py_str repr (PyFloat (- 0.75 * semi_H_WIDTH)) @ '' ''
                       @ py_str repr (PyFloat (- semi_H_HEIGHT)) @ '' 0'') w;
          w = cmd E (''create vertex '' @ py_str repr (PyFloat (0.75 * semi_H_WIDTH)) @ '' ''
                       @ py_str repr (PyFloat (- semi_H_HEIGHT)) @ '' 0'') w
      in w)"

definition semi_curves :: "'s engine \<Rightarrow> (pyval \<Rightarrow> string) \<Rightarrow> 's world \<Rightarrow> 's world" where
  "semi_curves E repr w =
     (let w = cmd E ''create curve vertex 2 3'' w;
          w = cmd E (''create curve arc center vertex 1 3 4 radius ''
                       @ py_str repr (PyInt semi_RADIUS)) w;
          w = cmd E (''create curve arc center vertex 1 4 5 radius ''
                       @ py_str repr (PyInt semi_RADIUS)) w;
          w = cmd E (''create curve arc center vertex 1 5 6 radius ''
                       @ py_str repr (PyInt semi_RADIUS)) w;
          w = cmd E ''create curve vertex 6 7'' w;
          w = cmd E ''create curve vertex 7 2'' w;
          w = cmd E ''create curve vertex 4 9'' w;
          w = cmd E ''create curve vertex 9 2'' w;
          w = cmd E ''create curve vertex 5 8'' w;
          w = cmd E ''create curve vertex 8 7'' w;
          w = cmd E ''create curve vertex 8 9'' w
      in w)"

text \<open>Returns the world and \<open>rigid_id\<close>, the ID of the obstacle's surface.\<close>

definition semi_surfaces ::
  "'s engine \<Rightarrow> (pyval \<Rightarrow> string) \<Rightarrow> 's world \<Rightarrow> int \<times> 's world" where
  "semi_surfaces E repr w =
     (let w = cmd E ''create surface curve 1 2 7 8'' w;
          w = cmd E ''create surface curve 7 3 9 11'' w;
          w = cmd E ''create surface curve 10 9 4 5'' w;
          w = cmd E ''create surface curve 6 8 11 10'' w;
          (g, w) = cubit_group E (Some ''semicircle'') ''add surface 1 2 3 4'' w;
          w = cmd E ''imprint all'' w;
          w = cmd E ''merge all'' w;
          thickness = 0.1 * real_of_int semi_RADIUS;
          w = cmd E (''create surface rectangle width '' @ py_str repr (PyInt (2 * semi_RADIUS))
                       @ '' height '' @ py_str repr (PyFloat thickness) @ '' zplane'') w;
          rigid_id = get_last_id E (Cupy ''geometry'' ''surface'') (session w);
          w = cmd E (''move surface '' @ py_str repr (PyInt rigid_id) @ '' x 0 y ''
                       @ py_str repr (PyFloat (- real_of_int semi_RADIUS - 0.5 * thickness))
                       @ '' z include_merged'') w;
          (g, w) = cubit_group E (Some ''obstacle'') ''add surface 5'' w
      in (rigid_id, w))"

definition semi_mesh :: "'s engine \<Rightarrow> (pyval \<Rightarrow> string) \<Rightarrow> int \<Rightarrow> 's world \<Rightarrow> 's world" where
  "semi_mesh E repr rigid_id w =
     (let w = cmd E (''curve 8  scheme bias fine size ''
                       @ py_str repr (PyFloat semi_MESH_SIZE_INTERMEDIATE) @ '' coarse size ''
                       @ py_str repr (PyFloat semi_MESH_SIZE_COARSE) @ '' start vertex 9'') w;
          w = cmd E (''curve 10 scheme bias fine size ''
                       @ py_str repr (PyFloat semi_MESH_SIZE_INTERMEDIATE) @ '' coarse size ''
                       @ py_str repr (PyFloat semi_MESH_SIZE_COARSE) @ '' start vertex 8'') w;
          w = cmd E (''curve 7  scheme bias fine size ''
                       @ py_str repr (PyFloat semi_MESH_SIZE_CONTACT) @ '' coarse size ''
                       @ py_str repr (PyFloat semi_MESH_SIZE_INTERMEDIATE) @ '' start vertex 4'') w;
          w = cmd E (''curve 9  scheme bias fine size ''
                       @ py_str repr (PyFloat semi_MESH_SIZE_CONTACT) @ '' coarse size ''
                       @ py_str repr (PyFloat semi_MESH_SIZE_INTERMEDIATE) @ '' start vertex 5'') w;
          w = cmd E (''curve 3  scheme bias fine size ''
                       @ py_str repr (PyFloat semi_MESH_SIZE_CONTACT) @ '' factor 1.0 '') w;
          w = cmd E (''surface '' @ py_str repr (PyInt rigid_id) @ '' size ''
                       @ py_str repr (PyInt (2 * semi_RADIUS))) w;
          w = cmd E ''mesh surface all'' w
      in w)"

definition semi_node_sets :: "'s engine \<Rightarrow> (pyval \<Rightarrow> string) \<Rightarrow> 's world \<Rightarrow> 's world" where
  "semi_node_sets E repr w =
     (let (g, w) = cubit_group E None
                     (''add curve with '' @ py_str repr (PyFloat (- semi_EPS))
                        @ '' < y_coord and y_coord < '' @ py_str repr (PyFloat semi_EPS)) w;
          w = add_node_set E g (Some ''top_boundary_neumann'') (Some (Cupy ''bc_type'' ''neumann''))
                (Some (DescDict
                   [(''NUMDOF'', PyInt 2),
                    (''ONOFF'', PyList [PyInt 0, PyInt 1]),
                    (''VAL'', PyList [PyInt 0, PyInt (- semi_PRESSURE)]),
                    (''FUNCT'', PyList [PyInt 0, PyInt 1])])) w;
          (g, w) = cubit_group E None
                     (''add curve with y_coord < ''
                        @ py_str repr (PyFloat (- semi_H_ARCLOC + semi_EPS))) w;
          w = add_node_set E g (Some ''bottom_boundary_contact'')
                (Some (Cupy ''bc_type'' ''solid_to_solid_curve_contact''))
                (Some (DescDict
                   [(''InterfaceID'', PyInt 1),
                    (''Side'', PyStr ''Slave''),
                    (''Initialization'', PyStr ''Inactive'')])) w
      in w)"

definition semi_element_blocks :: "'s engine \<Rightarrow> 's world \<Rightarrow> 's world" where
  "semi_element_blocks E w =
     (let (g, w) = cubit_group E None ''add surface in semicircle'' w;
          w = add_element_type E g (Some (Cupy ''element_type'' ''quad4''))
                (Some (DescDict [(''KINEM'', PyStr semi_KINEMATICS)])) w;
          (g, w) = cubit_group E None ''add surface in obstacle'' w;
          w = add_element_type E g (Some (Cupy ''element_type'' ''quad4''))
                (Some (DescDict [(''KINEM'', PyStr semi_KINEMATICS)])) w
      in w)"

text \<open>The parameter \<open>filename\<close> is not used in the body of the source function.\<close>

definition generate_semicircle ::
  "'s engine \<Rightarrow> (pyval \<Rightarrow> string) \<Rightarrow> string \<Rightarrow> 's world \<Rightarrow> 's world" where
  "generate_semicircle E repr filename w =
     (let w = CubitPy E w;
          w = semi_vertices E repr w;
          w = (if semi_SHOW_STEP ! 0 then display_in_cubit E [] w else w);
          w = semi_curves E repr w;
          w = (if semi_SHOW_STEP ! 1 then display_in_cubit E [] w else w);
          (rigid_id, w) = semi_surfaces E repr w;
          w = (if semi_SHOW_STEP ! 2 then display_in_cubit E [] w else w);
          w = semi_mesh E repr rigid_id w;
          w = (if semi_SHOW_STEP ! 3 then display_in_cubit E [] w else w);
          w = semi_node_sets E repr w;
          w = semi_element_blocks E w;
          w = print_mesh_statistics E repr w;
          w = (if semi_SHOW_STEP ! 4 \<or> semi_SHOW_FINAL then display_in_cubit E [] w else w)
      in w)"

definition semi_main ::
  "'s engine \<Rightarrow> (string \<Rightarrow> bool) \<Rightarrow> (pyval \<Rightarrow> string) \<Rightarrow> string \<Rightarrow> 's world
     \<Rightarrow> (py_error + unit) \<times> 's world" where
  "semi_main E can_open repr stamp w =
     (let path = ''./'' @ semi_KINEMATICS;
          w = makedirs path w;
          w = generate_semicircle E repr (path @ ''/hertzian_contact.yaml'') w
      in write_readme can_open repr stamp (path @ ''/README.md'') semi_OPTIONS w)"

section \<open>Vocabulary of the properties\<close>

text \<open>The IDs a result of \<open>cubit_cmd\<close> holds.\<close>

fun ids_of :: "new_ids \<Rightarrow> int set" where
  "ids_of (Single i) = {i}"
| "ids_of (Many xs) = set xs"

text \<open>The tracked IDs the session reports before and after a command, and the
  new ones among them.\<close>

definition ids_before :: "'s engine \<Rightarrow> 's world \<Rightarrow> string \<Rightarrow> int set" where
  "ids_before E w track_id = set (parse_cubit_list E track_id ''all'' (session w))"

definition ids_after :: "'s engine \<Rightarrow> string \<Rightarrow> 's world \<Rightarrow> string \<Rightarrow> int set" where
  "ids_after E command w track_id =
     set (parse_cubit_list E track_id ''all'' (step E (Cmd command) (session w)))"

definition new_tracked :: "'s engine \<Rightarrow> string \<Rightarrow> 's world \<Rightarrow> string \<Rightarrow> int set" where
  "new_tracked E command w track_id = ids_after E command w track_id - ids_before E w track_id"

text \<open>The README as the specification describes it: one table row per pair, one
  section per entry whose value is a dictionary.\<close>

definition table_row :: "(pyval \<Rightarrow> string) \<Rightarrow> string \<times> pyval \<Rightarrow> string" where
  "table_row repr kv = ''| '' @ fst kv @ '' | '' @ py_str repr (snd kv) @ '' |\<newline>''"

definition table_section ::
  "(pyval \<Rightarrow> string) \<Rightarrow> string \<times> (string \<times> pyval) list \<Rightarrow> string" where
  "table_section repr entry =
     ''## '' @ fst entry @ ''\<newline>''
       @ ''| Parameter | Value |\<newline>|:--|:--|\<newline>''
       @ concat (map (table_row repr) (snd entry)) @ ''\<newline>\<newline>''"

fun dict_entries :: "(string \<times> pyval) list \<Rightarrow> (string \<times> (string \<times> pyval) list) list" where
  "dict_entries [] = []"
| "dict_entries ((key, PyDict d) # rest) = (key, d) # dict_entries rest"
| "dict_entries (kv # rest) = dict_entries rest"

text \<open>The entries of an option table that can reach the README: the dictionaries,
  and the title and the description.\<close>

definition shown_entries :: "(string \<times> pyval) list \<Rightarrow> (string \<times> pyval) list" where
  "shown_entries options =
     filter (\<lambda>kv. has_items (snd kv) \<or> fst kv = ''title'' \<or> fst kv = ''description'') options"

text \<open>The events a run adds to the log.\<close>

definition added_events :: "'s world \<Rightarrow> 's world \<Rightarrow> event list" where
  "added_events w w' = drop (length (trace w)) (trace w')"

text \<open>Node sets: the \<open>add_node_set\<close> calls, and what the specification asks of one.\<close>

fun is_node_set :: "event \<Rightarrow> bool" where
  "is_node_set (Call (AddNodeSet it name bc_type bc_desc)) = True"
| "is_node_set e = False"

fun node_set_name :: "event \<Rightarrow> string option" where
  "node_set_name (Call (AddNodeSet it name bc_type bc_desc)) = name"
| "node_set_name e = None"

definition bc_types_named :: "cupy_enum list" where
  "bc_types_named =
     [Cupy ''bc_type'' ''dirichlet'', Cupy ''bc_type'' ''neumann'',
      Cupy ''bc_type'' ''solid_to_solid_curve_contact'']"

fun node_set_tagged :: "event \<Rightarrow> bool" where
  "node_set_tagged (Call (AddNodeSet it name bc_type bc_desc)) =
     ((case name of None \<Rightarrow> False | Some n \<Rightarrow> n \<noteq> [])
      \<and> (case bc_type of None \<Rightarrow> False | Some t \<Rightarrow> t \<in> set bc_types_named)
      \<and> bc_desc \<noteq> None)"
| "node_set_tagged e = False"

text \<open>
  The phases of a script. A command of the meshing tool is classified by its first
  word: \<open>create\<close>, \<open>brick\<close>, \<open>move\<close>, \<open>imprint\<close> and \<open>merge\<close> build geometry;
  \<open>surface\<close>, \<open>volume\<close> and \<open>curve\<close> (which set mesh sizes and schemes) and
  \<open>mesh\<close> belong to meshing. Node sets and element blocks are the tagging;
  \<open>create_dat\<close> and the opening of the README are the file emission. Creating a
  session, a group or a directory and displaying the session belong to no phase.
\<close>

datatype phase = Geometry | Meshing | Tagging | Emission

fun phase_rank :: "phase \<Rightarrow> nat" where
  "phase_rank Geometry = 0"
| "phase_rank Meshing = 1"
| "phase_rank Tagging = 2"
| "phase_rank Emission = 3"

definition first_word :: "string \<Rightarrow> string" where
  "first_word c = takeWhile (\<lambda>x. x \<noteq> CHR '' '') c"

definition cmd_phase :: "string \<Rightarrow> phase option" where
  "cmd_phase c =
     (if first_word c \<in> set [''create'', ''brick'', ''move'', ''imprint'', ''merge'']
      then Some Geometry
      else if first_word c \<in> set [''surface'', ''volume'', ''curve'', ''mesh'']
      then Some Meshing
      else None)"

fun event_phase :: "event \<Rightarrow> phase option" where
  "event_phase (Call (Cmd c)) = cmd_phase c"
| "event_phase (Call (AddNodeSet it name bc_type bc_desc)) = Some Tagging"
| "event_phase (Call (AddElementType it el_type bc_desc)) = Some Tagging"
| "event_phase (Call (CreateDat filename)) = Some Emission"
| "event_phase (OpenWrite filepath) = Some Emission"
| "event_phase e = None"

definition phases :: "event list \<Rightarrow> phase list" where
  "phases evs = List.map_filter event_phase evs"

text \<open>A command the classification does not know.\<close>

fun unclassified :: "event \<Rightarrow> bool" where
  "unclassified (Call (Cmd c)) = (cmd_phase c = None)"
| "unclassified e = False"

fun is_session_call :: "event \<Rightarrow> bool" where
  "is_session_call (Call c) = True"
| "is_session_call e = False"

fun writes_input_file :: "event \<Rightarrow> bool" where
  "writes_input_file (Call (CreateDat filename)) = True"
| "writes_input_file e = False"

text \<open>The events after the first \<open>create_dat\<close> (none when there is no such call).\<close>

definition after_input_file :: "event list \<Rightarrow> event list" where
  "after_input_file evs = tl (dropWhile (\<lambda>e. \<not> writes_input_file e) evs)"

text \<open>The line \<open>print_mesh_statistics\<close> prints for a nodeset.\<close>

definition nodeset_line :: "'s engine \<Rightarrow> (pyval \<Rightarrow> string) \<Rightarrow> 's \<Rightarrow> int \<Rightarrow> string" where
  "nodeset_line E repr s nsid =
     ''Nodes in Nodeset '' @ py_str repr (PyInt nsid) @ '': ''
       @ py_str repr (PyInt (get_nodeset_node_count E nsid s))"

text \<open>A script is a flat sequence when its phases follow each other in order, no call
  reaches the session after the solver input file has been written, and every command
  it sends is one the classification knows.\<close>

definition flat_sequence :: "event list \<Rightarrow> bool" where
  "flat_sequence evs =
     (sorted (map phase_rank (phases evs))
      \<and> \<not> list_ex is_session_call (after_input_file evs)
      \<and> \<not> list_ex unclassified evs)"

text \<open>A world to run examples in: nothing on disk, nothing logged.\<close>

definition empty_world :: "unit world" where
  "empty_world = \<lparr>session = (), head = [], files = Map.empty, dirs = {}, stdout = [], trace = []\<rparr>"

text \<open>An option table to run \<open>write_readme\<close> on.\<close>

definition demo_options :: "(string \<times> pyval) list" where
  "demo_options =
     [(''title'', PyStr ''T''), (''steps'', PyInt 5), (''description'', PyStr ''D''),
      (''geometry'', PyDict [(''length'', PyInt 20), (''shape'', PyStr ''beam'')])]"

section \<open>Properties of cubit\_cmd\<close>

lemma set_list_of_diff: "set (list_of_diff pos (set xs) (set ys)) = set xs - set ys"
  by (simp add: list_of_diff_def)

lemma distinct_list_of_diff: "distinct (list_of_diff pos (set xs) (set ys))"
  by (simp add: list_of_diff_def)

lemma length_list_of_diff:
  "length (list_of_diff pos (set xs) (set ys)) = card (set xs - set ys)"
  by (simp add: list_of_diff_def)

lemma singleton_list_nth: "length xs = 1 \<Longrightarrow> {xs ! 0} = set xs"
  by (cases xs) auto

lemma session_cmd: "session (cmd E command w) = step E (Cmd command) (session w)"
  by (simp add: cmd_def call_def)

lemma finite_new_tracked: "finite (new_tracked E command w track_id)"
  by (simp add: new_tracked_def ids_after_def)

text \<open>The list of new IDs \<open>cubit_cmd\<close> computes: the new tracked IDs, each once.\<close>

lemma new_ids_list:
  "set (list_of_diff pos (ids_after E command w t) (ids_before E w t)) = new_tracked E command w t"
  "distinct (list_of_diff pos (ids_after E command w t) (ids_before E w t))"
  "length (list_of_diff pos (ids_after E command w t) (ids_before E w t))
     = card (new_tracked E command w t)"
  by (simp_all add: new_tracked_def ids_after_def ids_before_def set_list_of_diff
      distinct_list_of_diff length_list_of_diff)

lemma fst_cubit_cmd:
  "fst (cubit_cmd E pos command w t fl) =
     (if card (new_tracked E command w t) = 1 \<and> fl
      then Single (list_of_diff pos (ids_after E command w t) (ids_before E w t) ! 0)
      else Many (list_of_diff pos (ids_after E command w t) (ids_before E w t)))"
  by (simp add: cubit_cmd_def Let_def session_cmd length_list_of_diff new_tracked_def
      ids_after_def ids_before_def)

lemma single_new_id:
  assumes "card (new_tracked E command w t) = 1"
  shows "list_of_diff pos (ids_after E command w t) (ids_before E w t) ! 0
           = the_elem (new_tracked E command w t)"
proof -
  let ?xs = "list_of_diff pos (ids_after E command w t) (ids_before E w t)"
  have "length ?xs = 1" using assms by (simp add: new_ids_list)
  then have "{?xs ! 0} = set ?xs" by (rule singleton_list_nth)
  then have "new_tracked E command w t = {?xs ! 0}" by (simp add: new_ids_list)
  then show ?thesis by simp
qed

text \<open>The order of the list is free: every enumeration of the new IDs is the list
  for the position function that numbers it, for example \<open>[8, 7]\<close>.\<close>

lemma index_nth:
  "i \<in> set xs \<Longrightarrow> xs ! length (takeWhile (\<lambda>y. y \<noteq> i) xs) = i"
  by (induction xs) auto

lemma index_inj:
  "k \<in> set xs \<Longrightarrow> x \<in> set xs \<Longrightarrow>
   length (takeWhile (\<lambda>y. y \<noteq> k) xs) = length (takeWhile (\<lambda>y. y \<noteq> x) xs) \<Longrightarrow> k = x"
  by (metis index_nth)

lemma sorted_map_Suc: "sorted (map Suc ys) = sorted ys"
  by (simp add: sorted_wrt_map)

lemma sorted_index:
  "distinct xs \<Longrightarrow> sorted (map (\<lambda>i. length (takeWhile (\<lambda>y. y \<noteq> i) xs)) xs)"
proof (induction xs)
  case Nil
  then show ?case by simp
next
  case (Cons a xs)
  have "map (\<lambda>i. length (takeWhile (\<lambda>y. y \<noteq> i) (a # xs))) xs
          = map (\<lambda>i. Suc (length (takeWhile (\<lambda>y. y \<noteq> i) xs))) xs"
    using Cons.prems by (intro map_cong) auto
  then have m: "map (\<lambda>i. length (takeWhile (\<lambda>y. y \<noteq> i) (a # xs))) (a # xs)
          = 0 # map Suc (map (\<lambda>i. length (takeWhile (\<lambda>y. y \<noteq> i) xs)) xs)"
    by simp
  have "sorted (map (\<lambda>i. length (takeWhile (\<lambda>y. y \<noteq> i) xs)) xs)"
    using Cons by simp
  then have "sorted (0 # map Suc (map (\<lambda>i. length (takeWhile (\<lambda>y. y \<noteq> i) xs)) xs))"
    by (simp only: sorted_simps sorted_map_Suc) simp
  then show ?case by (simp only: m)
qed

lemma filter_eq_singleton:
  "distinct ys \<Longrightarrow> k \<in> set ys \<Longrightarrow> filter (\<lambda>x. k = x) ys = [k]"
  by (induction ys) (auto simp: filter_empty_conv)

lemma sort_key_index:
  assumes "distinct xs"
  shows "sort_key (\<lambda>i. length (takeWhile (\<lambda>y. y \<noteq> i) xs)) (sorted_list_of_set (set xs)) = xs"
proof (rule properties_for_sort_key)
  show "mset xs = mset (sorted_list_of_set (set xs))"
    using assms
    by (metis mset_set_set mset_sorted_list_of_multiset sorted_list_of_mset_set)
  show "sorted (map (\<lambda>i. length (takeWhile (\<lambda>y. y \<noteq> i) xs)) xs)"
    using assms by (rule sorted_index)
next
  fix k
  assume k: "k \<in> set xs"
  let ?f = "\<lambda>i. length (takeWhile (\<lambda>y. y \<noteq> i) xs)"
  have eq: "filter (\<lambda>x. ?f k = ?f x) ys = filter (\<lambda>x. k = x) ys" if "set ys \<subseteq> set xs" for ys
    using that k by (intro filter_cong) (auto dest: index_inj)
  show "filter (\<lambda>x. ?f k = ?f x) xs = filter (\<lambda>x. ?f k = ?f x) (sorted_list_of_set (set xs))"
    using assms k by (simp add: eq filter_eq_singleton)
qed

lemma every_enumeration:
  "distinct xs \<Longrightarrow> A - B = set xs \<Longrightarrow>
   list_of_diff (\<lambda>i. length (takeWhile (\<lambda>y. y \<noteq> i) xs)) A B = xs"
  by (simp add: list_of_diff_def sort_key_index)

lemma list_of_diff_example:
  "list_of_diff (\<lambda>i. nat (10 - i)) (set [1, 2, 3, 4, 5, 6, 7, 8]) (set [1, 2, 3, 4, 5, 6]) = [8, 7]"
  by (simp add: list_of_diff_def)

text \<open>
  C2. Whatever the command, the session state, the tracked entity type, the
  flattening flag and the order in which Python iterates over a set, the IDs
  \<open>cubit_cmd\<close> returns are exactly the tracked IDs the session reports after the
  command minus those it reported before: they are all present after it, and none of
  them was present before it.
\<close>

theorem cubit_cmd_returns_set_difference:
  "ids_of (fst (cubit_cmd E pos command w track_id flatten_if_possible))
     = ids_after E command w track_id - ids_before E w track_id
   \<and> ids_of (fst (cubit_cmd E pos command w track_id flatten_if_possible))
       \<subseteq> ids_after E command w track_id
   \<and> ids_of (fst (cubit_cmd E pos command w track_id flatten_if_possible))
       \<inter> ids_before E w track_id = {}"
proof -
  have "ids_of (fst (cubit_cmd E pos command w track_id flatten_if_possible))
          = ids_after E command w track_id - ids_before E w track_id"
    by (simp add: cubit_cmd_def Let_def session_cmd ids_after_def ids_before_def
        set_list_of_diff singleton_list_nth)
  then show ?thesis by auto
qed

text \<open>
  C7. With \<open>flatten_if_possible = True\<close> the result is a single ID exactly when the
  command created exactly one new tracked entity, and that ID is the new entity's;
  otherwise it is a list that holds exactly the new IDs, each once, which is empty
  exactly when there is no new entity. With \<open>flatten_if_possible = False\<close> the
  result is always such a list, also for a single new entity. The order of the list
  is the set's iteration order, about which nothing is claimed.
\<close>

theorem cubit_cmd_flatten:
  "(if card (new_tracked E command w track_id) = 1
    then fst (cubit_cmd E pos command w track_id True)
           = Single (the_elem (new_tracked E command w track_id))
    else (\<exists>xs. fst (cubit_cmd E pos command w track_id True) = Many xs
            \<and> set xs = new_tracked E command w track_id \<and> distinct xs))
   \<and> (\<exists>xs. fst (cubit_cmd E pos command w track_id False) = Many xs
          \<and> set xs = new_tracked E command w track_id \<and> distinct xs)
   \<and> ((\<exists>i. fst (cubit_cmd E pos command w track_id True) = Single i)
        = (card (new_tracked E command w track_id) = 1))
   \<and> ((fst (cubit_cmd E pos command w track_id True) = Many [])
        = (new_tracked E command w track_id = {}))"
proof (intro conjI)
  let ?N = "new_tracked E command w track_id"
  let ?xs = "list_of_diff pos (ids_after E command w track_id) (ids_before E w track_id)"
  show "if card ?N = 1
    then fst (cubit_cmd E pos command w track_id True) = Single (the_elem ?N)
    else (\<exists>xs. fst (cubit_cmd E pos command w track_id True) = Many xs
            \<and> set xs = ?N \<and> distinct xs)"
    by (simp add: fst_cubit_cmd single_new_id new_ids_list)
  show "\<exists>xs. fst (cubit_cmd E pos command w track_id False) = Many xs
          \<and> set xs = ?N \<and> distinct xs"
    by (simp add: fst_cubit_cmd new_ids_list)
  show "(\<exists>i. fst (cubit_cmd E pos command w track_id True) = Single i) = (card ?N = 1)"
    by (simp add: fst_cubit_cmd)
  have "(?xs = []) = (?N = {})"
    using new_ids_list(1) [of pos E command w track_id] by (metis set_empty)
  then show "(fst (cubit_cmd E pos command w track_id True) = Many []) = (?N = {})"
    by (auto simp: fst_cubit_cmd)
qed

section \<open>Properties of write\_readme\<close>

lemma endswith_suffix: "endswith s suf = suffix suf s"
  by (auto simp: endswith_def suffix_def) (metis append_take_drop_id)

lemma suffix_readme_path: "suffix ''README.md'' (readme_path filepath)"
  by (simp add: readme_path_def endswith_suffix suffix_def)

lemma write_rows_eq: "write_rows repr d f = f @ concat (map (table_row repr) d)"
  by (induction d arbitrary: f) (auto simp: table_row_def)

lemma write_parameters_eq:
  "write_parameters repr opts f = f @ concat (map (table_section repr) (dict_entries opts))"
proof (induction opts arbitrary: f)
  case Nil
  then show ?case by simp
next
  case (Cons kv opts)
  obtain key v where kv: "kv = (key, v)" by (cases kv)
  show ?case
    by (cases v) (simp_all add: kv Cons.IH Let_def write_rows_eq table_section_def)
qed

lemma map_of_filter_key:
  "(\<And>v. (k, v) \<in> set xs \<Longrightarrow> P (k, v)) \<Longrightarrow> map_of (filter P xs) k = map_of xs k"
  by (induction xs) auto

lemma map_of_shown_title: "map_of (shown_entries options) ''title'' = map_of options ''title''"
  unfolding shown_entries_def by (rule map_of_filter_key) simp

lemma map_of_shown_description:
  "map_of (shown_entries options) ''description'' = map_of options ''description''"
  unfolding shown_entries_def by (rule map_of_filter_key) simp

lemma dict_entries_shown: "dict_entries (shown_entries options) = dict_entries options"
proof (induction options)
  case Nil
  then show ?case by (simp add: shown_entries_def)
next
  case (Cons kv options)
  obtain key v where kv: "kv = (key, v)" by (cases kv)
  from Cons show ?case
    by (cases v) (simp_all add: kv shown_entries_def)
qed

lemma readme_writes_shown:
  "readme_writes repr stamp (shown_entries options) = readme_writes repr stamp options"
  by (simp add: readme_writes_def Let_def write_parameters_eq map_of_shown_title
      map_of_shown_description dict_entries_shown split: option.splits)

lemma readme_writes_complete:
  "map_of options ''title'' = Some title \<Longrightarrow> map_of options ''description'' = Some description \<Longrightarrow>
   readme_writes repr stamp options =
     (Inr (),
      ''# '' @ py_str repr title @ ''\<newline>\<newline>''
        @ py_str repr description @ ''\<newline>\<newline>\<newline>''
        @ concat (map (table_section repr) (dict_entries options))
        @ ''Last updated: '' @ stamp @ ''\<newline>'')"
  by (simp add: readme_writes_def write_parameters_eq)

lemma readme_writes_missing:
  "map_of options ''title'' = None \<or> map_of options ''description'' = None \<Longrightarrow>
   readme_writes repr stamp options =
     (Inl (KeyError (if map_of options ''title'' = None then ''title'' else ''description'')),
      (case map_of options ''title'' of None \<Rightarrow> []
       | Some title \<Rightarrow> ''# '' @ py_str repr title @ ''\<newline>\<newline>''))"
  by (auto simp: readme_writes_def split: option.splits)

lemma write_readme_opened:
  "can_open (readme_path filepath) \<Longrightarrow>
   write_readme can_open repr stamp filepath options w =
     (fst (readme_writes repr stamp options),
      w\<lparr>files := (files w)(readme_path filepath \<mapsto> snd (readme_writes repr stamp options)),
        trace := trace w @ [OpenWrite (readme_path filepath)]\<rparr>)"
  by (simp add: write_readme_def Let_def split: prod.splits)

text \<open>
  C3. When the options hold a title and a description (and the file can be opened),
  \<open>write_readme\<close> succeeds and the file at the README path holds: the header
  \<open># title\<close>, the description, then one section per entry of the options whose value
  is a dictionary, in the order of the options, each a \<open>## key\<close> line, the table
  header \<open>| Parameter | Value |\<close> and one row per pair of the nested dictionary in
  its order, and last the line with the time stamp.
\<close>

theorem write_readme_markdown:
  assumes "map_of options ''title'' = Some title"
    and "map_of options ''description'' = Some description"
    and "can_open (readme_path filepath)"
  shows "fst (write_readme can_open repr stamp filepath options w) = Inr ()
    \<and> files (snd (write_readme can_open repr stamp filepath options w)) (readme_path filepath) =
        Some (''# '' @ py_str repr title @ ''\<newline>\<newline>''
              @ py_str repr description @ ''\<newline>\<newline>\<newline>''
              @ concat (map (table_section repr) (dict_entries options))
              @ ''Last updated: '' @ stamp @ ''\<newline>'')
    \<and> map fst (dict_entries options) = map fst (filter (\<lambda>kv. has_items (snd kv)) options)"
proof -
  have keys: "map fst (dict_entries xs) = map fst (filter (\<lambda>kv. has_items (snd kv)) xs)" for xs
  proof (induction xs)
    case Nil
    then show ?case by simp
  next
    case (Cons kv xs)
    obtain key v where kv: "kv = (key, v)" by (cases kv)
    from Cons show ?case by (cases v) (simp_all add: kv)
  qed
  show ?thesis
    using assms keys [of options]
    by (simp add: write_readme_opened readme_writes_complete)
qed

theorem write_readme_markdown_witness:
  "files (snd (write_readme (\<lambda>p. True) (\<lambda>v. ''20'') ''now'' ''out'' demo_options empty_world))
     ''out/README.md'' =
   Some ''# T\<newline>\<newline>D\<newline>\<newline>\<newline>## geometry\<newline>| Parameter | Value |\<newline>|:--|:--|\<newline>| length | 20 |\<newline>| shape | beam |\<newline>\<newline>\<newline>Last updated: now\<newline>''"
proof -
  have p: "readme_path ''out'' = ''out/README.md''"
    by (simp add: readme_path_def endswith_def)
  show ?thesis
    using write_readme_markdown [of demo_options "PyStr ''T''" "PyStr ''D''" "\<lambda>p. True" "''out''"
        "\<lambda>v. ''20''" "''now''" empty_world]
    by (simp add: p demo_options_def table_section_def table_row_def)
qed

text \<open>
  C8. When the file can be opened and the options lack the title or the description,
  \<open>write_readme\<close> raises a \<open>KeyError\<close> for the first of the two keys that is
  missing and leaves a truncated file at the README path: empty when the title is
  missing, holding only the title header when the description is. And for every
  option table, the entries whose values are not dictionaries, other than the title and
  the description, do not reach the README: removing them changes nothing of what
  \<open>write_readme\<close> does.
\<close>

theorem write_readme_missing_key:
  "(can_open (readme_path filepath)
      \<and> (map_of options ''title'' = None \<or> map_of options ''description'' = None)
    \<longrightarrow> fst (write_readme can_open repr stamp filepath options w) =
          Inl (KeyError (if map_of options ''title'' = None then ''title'' else ''description''))
        \<and> files (snd (write_readme can_open repr stamp filepath options w)) (readme_path filepath) =
            Some (case map_of options ''title'' of None \<Rightarrow> []
                  | Some title \<Rightarrow> ''# '' @ py_str repr title @ ''\<newline>\<newline>''))
   \<and> write_readme can_open repr stamp filepath (shown_entries options) w
       = write_readme can_open repr stamp filepath options w"
proof (intro conjI impI)
  assume h: "can_open (readme_path filepath)
      \<and> (map_of options ''title'' = None \<or> map_of options ''description'' = None)"
  then show "fst (write_readme can_open repr stamp filepath options w) =
      Inl (KeyError (if map_of options ''title'' = None then ''title'' else ''description''))"
    by (simp add: write_readme_opened readme_writes_missing)
  from h show "files (snd (write_readme can_open repr stamp filepath options w))
        (readme_path filepath) =
      Some (case map_of options ''title'' of None \<Rightarrow> []
            | Some title \<Rightarrow> ''# '' @ py_str repr title @ ''\<newline>\<newline>'')"
    by (simp add: write_readme_opened readme_writes_missing)
next
  show "write_readme can_open repr stamp filepath (shown_entries options) w
      = write_readme can_open repr stamp filepath options w"
    by (simp add: write_readme_def Let_def readme_writes_shown)
qed

theorem write_readme_missing_key_witness:
  "fst (write_readme (\<lambda>p. True) (\<lambda>v. ''5'') ''now'' ''out''
          [(''steps'', PyInt 5), (''description'', PyStr ''D'')] empty_world)
     = Inl (KeyError ''title'')
   \<and> files (snd (write_readme (\<lambda>p. True) (\<lambda>v. ''5'') ''now'' ''out''
          [(''steps'', PyInt 5), (''description'', PyStr ''D'')] empty_world)) ''out/README.md''
     = Some []
   \<and> fst (write_readme (\<lambda>p. True) (\<lambda>v. ''5'') ''now'' ''out''
          [(''title'', PyStr ''T''), (''steps'', PyInt 5)] empty_world)
     = Inl (KeyError ''description'')
   \<and> files (snd (write_readme (\<lambda>p. True) (\<lambda>v. ''5'') ''now'' ''out''
          [(''title'', PyStr ''T''), (''steps'', PyInt 5)] empty_world)) ''out/README.md''
     = Some ''# T\<newline>\<newline>''"
proof -
  have p: "readme_path ''out'' = ''out/README.md''"
    by (simp add: readme_path_def endswith_def)
  show ?thesis
    using write_readme_missing_key [of "\<lambda>p. True" "''out''"
        "[(''steps'', PyInt 5), (''description'', PyStr ''D'')]" "\<lambda>v. ''5''" "''now''" empty_world]
      write_readme_missing_key [of "\<lambda>p. True" "''out''"
        "[(''title'', PyStr ''T''), (''steps'', PyInt 5)]" "\<lambda>v. ''5''" "''now''" empty_world]
    by (simp add: p)
qed

text \<open>
  C9. The only file \<open>write_readme\<close> touches is the one at the README path, which
  always ends in \<open>README.md\<close>: it is the given path when that already ends in
  \<open>README.md\<close>, and the given path followed by \<open>/README.md\<close> otherwise. When
  the file cannot be opened the file system is left as it was.
\<close>

theorem write_readme_path:
  "files (snd (write_readme can_open repr stamp filepath options w)) =
     (if can_open (readme_path filepath)
      then (files w)(readme_path filepath \<mapsto> snd (readme_writes repr stamp options))
      else files w)
   \<and> suffix ''README.md'' (readme_path filepath)
   \<and> readme_path filepath =
       (if suffix ''README.md'' filepath then filepath else filepath @ ''/README.md'')"
proof (intro conjI)
  show "files (snd (write_readme can_open repr stamp filepath options w)) =
     (if can_open (readme_path filepath)
      then (files w)(readme_path filepath \<mapsto> snd (readme_writes repr stamp options))
      else files w)"
    by (simp add: write_readme_def Let_def split: prod.splits)
  show "suffix ''README.md'' (readme_path filepath)"
    by (rule suffix_readme_path)
  show "readme_path filepath =
       (if suffix ''README.md'' filepath then filepath else filepath @ ''/README.md'')"
    by (simp add: readme_path_def endswith_suffix)
qed

section \<open>Properties of print\_mesh\_statistics\<close>

lemma trace_call: "trace (call E c w) = trace w @ [Call c]"
  by (simp add: call_def)

lemma files_call: "files (call E c w) = files w"
  by (simp add: call_def)

lemma print_nodesets_eq:
  "print_nodesets E repr ns w = w\<lparr>stdout := stdout w @ map (nodeset_line E repr (session w)) ns\<rparr>"
  by (induction ns arbitrary: w) (simp_all add: py_print_def nodeset_line_def)

lemma print_mesh_statistics_eq:
  "print_mesh_statistics E repr w =
     w\<lparr>stdout := stdout w
         @ [''Total nodes:        '' @ py_str repr (PyInt (get_node_count E (session w))),
            ''Total elements:     '' @ py_str repr (PyInt (get_element_count E (session w)))]
         @ map (nodeset_line E repr (session w)) (parse_cubit_list E ''nodeset'' ''all'' (session w))\<rparr>"
  by (simp add: print_mesh_statistics_def Let_def print_nodesets_eq py_print_def)

lemma trace_print_mesh_statistics: "trace (print_mesh_statistics E repr w) = trace w"
  by (simp add: print_mesh_statistics_eq)

lemma files_print_mesh_statistics: "files (print_mesh_statistics E repr w) = files w"
  by (simp add: print_mesh_statistics_eq)

text \<open>
  \<open>print_mesh_statistics\<close>, the second function of \<open>femref/cubit_utils.py\<close>,
  prints the node count, the element count and one line per nodeset to standard output
  and changes nothing else; every generator calls it.
\<close>

lemma print_mesh_statistics_prints:
  "stdout (print_mesh_statistics E repr w) =
     stdout w
       @ [''Total nodes:        '' @ py_str repr (PyInt (get_node_count E (session w))),
          ''Total elements:     '' @ py_str repr (PyInt (get_element_count E (session w)))]
       @ map (nodeset_line E repr (session w))
           (parse_cubit_list E ''nodeset'' ''all'' (session w))
   \<and> session (print_mesh_statistics E repr w) = session w
   \<and> files (print_mesh_statistics E repr w) = files w
   \<and> trace (print_mesh_statistics E repr w) = trace w"
  by (simp add: print_mesh_statistics_eq)

section \<open>Properties of the generator scripts\<close>

lemmas session_ops = cmd_def cubit_group_def add_node_set_def add_element_type_def
  display_in_cubit_def CubitPy_def create_dat_def makedirs_def

lemmas semi_steps = semi_vertices_def semi_curves_def semi_surfaces_def semi_mesh_def
  semi_node_sets_def semi_element_blocks_def

lemma first_word_literal [simp]:
  "first_word (CHR '' '' # cs) = []"
  "x \<noteq> CHR '' '' \<Longrightarrow> first_word (x # cs) = x # first_word cs"
  "first_word [] = []"
  by (simp_all add: first_word_def)

lemma trace_write_readme:
  "trace (snd (write_readme can_open repr stamp filepath options w)) =
     (if can_open (readme_path filepath) then trace w @ [OpenWrite (readme_path filepath)]
      else trace w)"
  by (simp add: write_readme_def Let_def split: prod.splits)

lemma readme_path_literals:
  "readme_path ''./README.md'' = ''./README.md''"
  "readme_path ''./nonlinear/README.md'' = ''./nonlinear/README.md''"
  by (simp_all add: readme_path_def endswith_def)

lemmas beam_unfold = generate_bending_beam_def Let_def session_ops beam_SHOW_STEP_def
  beam_SHOW_FINAL_def

lemmas block_unfold = generate_block_def Let_def session_ops block_SHOW_STEP_def
  block_SHOW_FINAL_def

lemmas semi_unfold = generate_semicircle_def semi_steps Let_def session_ops semi_SHOW_STEP_def
  semi_SHOW_FINAL_def

text \<open>The two generators that end in \<open>create_dat\<close> write the file they are asked
  for.\<close>

lemma generate_bending_beam_writes:
  "files (generate_bending_beam E repr filename w) filename \<noteq> None"
  by (simp add: beam_unfold files_call files_print_mesh_statistics split: prod.splits)

lemma generate_block_writes:
  "files (generate_block E repr filename w) filename \<noteq> None"
  by (simp add: block_unfold files_call files_print_mesh_statistics split: prod.splits)

lemma files_generate_semicircle: "files (generate_semicircle E repr filename w) = files w"
  by (simp add: semi_unfold files_call files_print_mesh_statistics split: prod.splits)

text \<open>
  C1, where the code departs from it. \<open>generate_semicircle\<close> never writes a file:
  whatever the file name, the file system after the call is the one before it, no
  \<open>create_dat\<close> is among the calls it makes, and after the whole script block the
  path of the solver input file holds what it held before (nothing, in a fresh
  directory).
\<close>

theorem generate_semicircle_writes_no_file:
  "files (generate_semicircle E repr filename w) = files w
   \<and> \<not> list_ex writes_input_file (added_events w (generate_semicircle E repr filename w))
   \<and> files (snd (semi_main E can_open repr stamp w)) ''./nonlinear/hertzian_contact.yaml''
       = files w ''./nonlinear/hertzian_contact.yaml''"
proof (intro conjI)
  show "files (generate_semicircle E repr filename w) = files w"
    by (rule files_generate_semicircle)
  show "\<not> list_ex writes_input_file (added_events w (generate_semicircle E repr filename w))"
    by (simp add: added_events_def semi_unfold trace_call trace_print_mesh_statistics
        split: prod.splits)
  show "files (snd (semi_main E can_open repr stamp w)) ''./nonlinear/hertzian_contact.yaml''
       = files w ''./nonlinear/hertzian_contact.yaml''"
    by (simp add: semi_main_def Let_def write_readme_def files_generate_semicircle
        makedirs_def semi_KINEMATICS_def readme_path_literals split: prod.splits)
qed

text \<open>
  C5. Every node set a generator adds carries a non-empty name, a boundary-condition
  type that is Dirichlet, Neumann or (curve) contact, and a boundary-condition
  description; the node sets are, in order, \<open>bottom\<close>, \<open>left\<close>, \<open>top\<close> and
  \<open>right\<close> for the bending beam, \<open>rigid_left\<close> and \<open>torsion_right\<close> for the
  block, \<open>top_boundary_neumann\<close> and \<open>bottom_boundary_contact\<close> for the
  semicircle.
\<close>

theorem node_sets_are_tagged:
  "list_all node_set_tagged
     (filter is_node_set (added_events w (generate_bending_beam E repr filename w)))
   \<and> map node_set_name
       (filter is_node_set (added_events w (generate_bending_beam E repr filename w)))
     = [Some ''bottom'', Some ''left'', Some ''top'', Some ''right'']
   \<and> list_all node_set_tagged
       (filter is_node_set (added_events w (generate_block E repr filename w)))
   \<and> map node_set_name
       (filter is_node_set (added_events w (generate_block E repr filename w)))
     = [Some ''rigid_left'', Some ''torsion_right'']
   \<and> list_all node_set_tagged
       (filter is_node_set (added_events w (generate_semicircle E repr filename w)))
   \<and> map node_set_name
       (filter is_node_set (added_events w (generate_semicircle E repr filename w)))
     = [Some ''top_boundary_neumann'', Some ''bottom_boundary_contact'']"
proof (intro conjI)
  show "list_all node_set_tagged
     (filter is_node_set (added_events w (generate_bending_beam E repr filename w)))"
    by (simp add: added_events_def beam_unfold trace_call trace_print_mesh_statistics
        bc_types_named_def split: prod.splits)
  show "map node_set_name
       (filter is_node_set (added_events w (generate_bending_beam E repr filename w)))
     = [Some ''bottom'', Some ''left'', Some ''top'', Some ''right'']"
    by (simp add: added_events_def beam_unfold trace_call trace_print_mesh_statistics
        split: prod.splits)
  show "list_all node_set_tagged
       (filter is_node_set (added_events w (generate_block E repr filename w)))"
    by (simp add: added_events_def block_unfold trace_call trace_print_mesh_statistics
        bc_types_named_def split: prod.splits)
  show "map node_set_name
       (filter is_node_set (added_events w (generate_block E repr filename w)))
     = [Some ''rigid_left'', Some ''torsion_right'']"
    by (simp add: added_events_def block_unfold trace_call trace_print_mesh_statistics
        split: prod.splits)
  show "list_all node_set_tagged
       (filter is_node_set (added_events w (generate_semicircle E repr filename w)))"
    by (simp add: added_events_def semi_unfold trace_call trace_print_mesh_statistics
        bc_types_named_def split: prod.splits)
  show "map node_set_name
       (filter is_node_set (added_events w (generate_semicircle E repr filename w)))
     = [Some ''top_boundary_neumann'', Some ''bottom_boundary_contact'']"
    by (simp add: added_events_def semi_unfold trace_call trace_print_mesh_statistics
        split: prod.splits)
qed

text \<open>The phases of the three script blocks, as ranks: geometry 0, meshing 1,
  tagging 2, file emission 3.\<close>

lemma beam_main_phases:
  "map phase_rank (phases (added_events w (snd (beam_main E can_open repr stamp w))))
     = [0, 1, 1, 2, 2, 2, 2, 2, 3] @ (if can_open ''./README.md'' then [3] else [])"
  by (simp add: added_events_def beam_main_def trace_write_readme readme_path_literals
      beam_unfold trace_call trace_print_mesh_statistics phases_def
      cmd_phase_def split: prod.splits)

lemma block_main_phases:
  "map phase_rank (phases (added_events w (snd (block_main E can_open repr stamp w))))
     = [0, 0, 1, 1, 2, 2, 2, 3] @ (if can_open ''./nonlinear/README.md'' then [3] else [])"
  by (simp add: added_events_def block_main_def block_KINEMATICS_def trace_write_readme
      readme_path_literals block_unfold trace_call trace_print_mesh_statistics phases_def
      cmd_phase_def split: prod.splits)

lemma semi_main_phases:
  "map phase_rank (phases (added_events w (snd (semi_main E can_open repr stamp w))))
     = replicate 28 0 @ replicate 7 1 @ replicate 4 2
       @ (if can_open ''./nonlinear/README.md'' then [3] else [])"
  by (simp add: added_events_def semi_main_def semi_KINEMATICS_def trace_write_readme
      readme_path_literals semi_unfold trace_call trace_print_mesh_statistics phases_def
      cmd_phase_def eval_nat_numeral split: prod.splits)

lemma beam_main_after:
  "\<not> list_ex is_session_call
       (after_input_file (added_events w (snd (beam_main E can_open repr stamp w))))"
  by (simp add: added_events_def beam_main_def trace_write_readme readme_path_literals
      beam_unfold trace_call trace_print_mesh_statistics after_input_file_def
      split: prod.splits)

lemma block_main_after:
  "\<not> list_ex is_session_call
       (after_input_file (added_events w (snd (block_main E can_open repr stamp w))))"
  by (simp add: added_events_def block_main_def block_KINEMATICS_def trace_write_readme
      readme_path_literals block_unfold trace_call trace_print_mesh_statistics
      after_input_file_def split: prod.splits)

lemma semi_main_after:
  "\<not> list_ex is_session_call
       (after_input_file (added_events w (snd (semi_main E can_open repr stamp w))))"
  by (simp add: added_events_def semi_main_def semi_KINEMATICS_def trace_write_readme
      readme_path_literals semi_unfold trace_call trace_print_mesh_statistics
      after_input_file_def split: prod.splits)

lemma beam_main_classified:
  "\<not> list_ex unclassified (added_events w (snd (beam_main E can_open repr stamp w)))"
  by (simp add: added_events_def beam_main_def trace_write_readme readme_path_literals
      beam_unfold trace_call trace_print_mesh_statistics cmd_phase_def split: prod.splits)

lemma block_main_classified:
  "\<not> list_ex unclassified (added_events w (snd (block_main E can_open repr stamp w)))"
  by (simp add: added_events_def block_main_def block_KINEMATICS_def trace_write_readme
      readme_path_literals block_unfold trace_call trace_print_mesh_statistics cmd_phase_def
      split: prod.splits)

lemma semi_main_classified:
  "\<not> list_ex unclassified (added_events w (snd (semi_main E can_open repr stamp w)))"
  by (simp add: added_events_def semi_main_def semi_KINEMATICS_def trace_write_readme
      readme_path_literals semi_unfold trace_call trace_print_mesh_statistics cmd_phase_def
      split: prod.splits)

text \<open>
  C6. Each script block, run from any world against any engine, is a flat sequence:
  the commands that build geometry come before those that mesh, these before the node
  sets and element blocks, these before the writing of files; no call reaches the
  meshing session after \<open>create_dat\<close> has written the solver input file; and every
  command sent is one of the classified kinds. The parameters are constants, fixed
  before anything runs.
\<close>

theorem scripts_are_flat_sequences:
  "flat_sequence (added_events w (snd (beam_main E can_open repr stamp w)))
   \<and> flat_sequence (added_events w (snd (block_main E can_open repr stamp w)))
   \<and> flat_sequence (added_events w (snd (semi_main E can_open repr stamp w)))"
proof (intro conjI)
  show "flat_sequence (added_events w (snd (beam_main E can_open repr stamp w)))"
    unfolding flat_sequence_def
    by (simp add: beam_main_phases beam_main_after beam_main_classified)
  show "flat_sequence (added_events w (snd (block_main E can_open repr stamp w)))"
    unfolding flat_sequence_def
    by (simp add: block_main_phases block_main_after block_main_classified)
  show "flat_sequence (added_events w (snd (semi_main E can_open repr stamp w)))"
    unfolding flat_sequence_def
    by (simp add: semi_main_phases semi_main_after semi_main_classified sorted_append)
qed

end
